theory Spec2Isabelle
  imports Complex_Main "HOL-Library.Log_Nat"
begin

section \<open>GeometryExplorer: the component and the runtime around it\<close>

text \<open>
  The development embeds \<^verbatim>\<open>src/components/GeometryExplorer/GeometryExplorer.tsx\<close>.
  The component keeps three pieces of React state, a handful of refs, and talks to three
  collaborators: \<^verbatim>\<open>localStorage\<close>, the DOM (container, window listeners, animation
  frames) and the three.js objects it allocates. Every mutation of the source is a record
  update of one \<open>state\<close>; every call whose effect lives outside the component
  (dispose, render, scheduling) is appended to a \<open>trace\<close>.

  The rotation angles, the only numbers the component accumulates, are IEEE-754 doubles
  (type \<open>number\<close> below): a literal denotes the double nearest to it and \<open>+=\<close> is the
  correctly rounded addition. The arguments of the geometry constructors, the colours and
  the bounds of the container are recorded as the source writes or receives them, as
  rationals; the one quotient taken of them, the aspect ratio, is kept exact, and it is
  \<open>None\<close> when the divisor is zero (JavaScript yields \<open>NaN\<close> or an infinity).
\<close>

subsection \<open>Catalog\<close>

text \<open>
  The \<open>create\<close> field of the source is a thunk \<^verbatim>\<open>() => new THREE.XGeometry(args)\<close>.
  It is modelled by the constructor call it performs; invoking it (\<open>invokeCreate\<close> below)
  allocates a fresh object built by that call.
\<close>

datatype geometryCtor =
    SphereGeometry rat nat nat
  | BoxGeometry rat rat rat
  | ConeGeometry rat rat nat
  | CylinderGeometry rat rat rat nat
  | TorusGeometry rat rat nat nat
  | TorusKnotGeometry rat rat nat nat
  | DodecahedronGeometry rat
  | IcosahedronGeometry rat

record GeometryItem =
  name :: string
  category :: string
  description :: string
  create :: geometryCtor
  color :: string

text \<open>
  The second category of the source is spelt with U+00F3; a JavaScript string holds it
  as one code unit, written here as the character of that code.
\<close>

definition Platonicos :: string where
  "Platonicos = ''Plat'' @ [CHR 0xF3] @ ''nicos''"

definition geometries :: "GeometryItem list" where
  "geometries =
    [ \<lparr>name = ''Sphere'', category = ''Primitivas'', description = ''Esfera'',
        create = SphereGeometry 1 32 16, color = ''#FF6B6B''\<rparr>,
      \<lparr>name = ''Box'', category = ''Primitivas'', description = ''Caja'',
        create = BoxGeometry 1.5 1.5 1.5, color = ''#44aa88''\<rparr>,
      \<lparr>name = ''Cone'', category = ''Primitivas'', description = ''Cono'',
        create = ConeGeometry 1 2 32, color = ''#556270''\<rparr>,
      \<lparr>name = ''Cylinder'', category = ''Primitivas'', description = ''Cilindro'',
        create = CylinderGeometry 1 1 2 32, color = ''#C7F464''\<rparr>,
      \<lparr>name = ''Torus'', category = ''Primitivas'', description = ''Toro'',
        create = TorusGeometry 1 0.4 16 100, color = ''#FFA500''\<rparr>,
      \<lparr>name = ''TorusKnot'', category = ''Primitivas'', description = ''Nudo Toroidal'',
        create = TorusKnotGeometry 1 0.3 100 16, color = ''#6A0572''\<rparr>,
      \<lparr>name = ''Dodecahedron'', category = Platonicos, description = ''Dodecaedro'',
        create = DodecahedronGeometry 1, color = ''#FF6F91''\<rparr>,
      \<lparr>name = ''Icosahedron'', category = Platonicos, description = ''Icosaedro'',
        create = IcosahedronGeometry 1, color = ''#00BFFF''\<rparr> ]"

text \<open>
  \<^verbatim>\<open>categorizedGeometries\<close> reduces the list into a JavaScript object. No category is an
  array-index string or a property of \<^verbatim>\<open>Object.prototype\<close>, so the object's own keys
  are enumerated by \<^verbatim>\<open>Object.entries\<close> in insertion order and \<^verbatim>\<open>!acc[k]\<close> holds
  exactly when \<open>k\<close> has not been inserted: the object is an association list in
  insertion order.
\<close>

definition categorize :: "(string \<times> GeometryItem list) list \<Rightarrow> GeometryItem \<Rightarrow>
    (string \<times> GeometryItem list) list" where
  "categorize acc geom =
    (let acc1 = (if map_of acc (category geom) = None then acc @ [(category geom, [])] else acc)
     in map (\<lambda>(k, v). if k = category geom then (k, v @ [geom]) else (k, v)) acc1)"

definition reduceCategories :: "GeometryItem list \<Rightarrow> (string \<times> GeometryItem list) list" where
  "reduceCategories gs = foldl categorize [] gs"

definition categorizedGeometries :: "(string \<times> GeometryItem list) list" where
  "categorizedGeometries = reduceCategories geometries"

text \<open>
  The grouping in the words of the specification: one group per category, the categories
  in the order of their first appearance, each group the subsequence of the entries of
  that category in the order of the flat list.
\<close>

fun firstAppearances :: "'a list \<Rightarrow> 'a list" where
  "firstAppearances [] = []"
| "firstAppearances (x # xs) = x # filter (\<lambda>y. y \<noteq> x) (firstAppearances xs)"

definition groupByCategory :: "GeometryItem list \<Rightarrow> (string \<times> GeometryItem list) list" where
  "groupByCategory gs =
    map (\<lambda>k. (k, filter (\<lambda>g. category g = k) gs)) (firstAppearances (map category gs))"

subsection \<open>Numbers\<close>

text \<open>
  A JavaScript number is a finite double, an infinity or \<open>NaN\<close>. A finite double is
  identified with the rational it denotes (the two zeros are one value, as they are for
  \<^verbatim>\<open>===\<close>). \<open>round64\<close> is rounding to nearest, ties to even, onto the doubles:
  53 significant bits, the spacing \<open>2^(e - 52)\<close> for a value with binary exponent
  \<open>e\<close>, the fixed spacing \<open>2^(-1074)\<close> below \<open>2^(-1022)\<close>, and an infinity
  when the rounded value reaches \<open>2^1024\<close>.
\<close>

datatype number = Finite rat | PosInfinity | NegInfinity | NaN

definition pow2 :: "int \<Rightarrow> rat" where
  "pow2 e = (if 0 \<le> e then 2 ^ nat e else 1 / 2 ^ nat (- e))"

text \<open>The binary exponent of a non-zero rational: the \<open>e\<close> with \<open>2^e \<le> |x| < 2^(e + 1)\<close>.\<close>

definition exponent :: "rat \<Rightarrow> int" where
  "exponent x =
    (let (p, q) = quotient_of \<bar>x\<bar>; d = bitlen p - bitlen q
     in if pow2 d \<le> \<bar>x\<bar> then d else d - 1)"

definition roundHalfEven :: "rat \<Rightarrow> int" where
  "roundHalfEven x =
    (let f = \<lfloor>x\<rfloor>; r = x - of_int f
     in if r < 1 / 2 then f else if 1 / 2 < r then f + 1 else if even f then f else f + 1)"

definition round64 :: "rat \<Rightarrow> number" where
  "round64 x =
    (if x = 0 then Finite 0
     else let e = max (exponent x) (- 1022);
              q = pow2 (e - 52);
              r = of_int (roundHalfEven (x / q)) * q
          in if pow2 1024 \<le> \<bar>r\<bar> then (if 0 < x then PosInfinity else NegInfinity)
             else Finite r)"

text \<open>The operator \<^verbatim>\<open>+\<close> on two numbers.\<close>

fun js_add :: "number \<Rightarrow> number \<Rightarrow> number" where
  "js_add (Finite a) (Finite b) = round64 (a + b)"
| "js_add NaN _ = NaN"
| "js_add _ NaN = NaN"
| "js_add PosInfinity NegInfinity = NaN"
| "js_add NegInfinity PosInfinity = NaN"
| "js_add PosInfinity _ = PosInfinity"
| "js_add _ PosInfinity = PosInfinity"
| "js_add NegInfinity _ = NegInfinity"
| "js_add _ NegInfinity = NegInfinity"

text \<open>A decimal literal of the source denotes the double nearest to it.\<close>

definition numericLiteral :: "rat \<Rightarrow> number" where
  "numericLiteral x = round64 x"

subsection \<open>Objects of the viewport\<close>

text \<open>
  In three.js \<^verbatim>\<open>needsUpdate\<close> is a setter of the material: assigning \<open>true\<close>
  increments the material's \<open>version\<close>, which is what makes the renderer upload it
  again. The model keeps that counter, so every such assignment shows in the state.
\<close>

record bufferGeometry =
  geo_id :: nat
  built :: geometryCtor

record material =
  mat_id :: nat
  mat_color :: string
  mat_wireframe :: bool
  version :: nat

record mesh =
  geometry :: bufferGeometry
  mesh_material :: material
  rotation_x :: number
  rotation_y :: number

record camera =
  fov :: rat
  aspect :: "rat option"
  near :: rat
  far :: rat
  cam_position :: "rat \<times> rat \<times> rat"

record renderer =
  domElement :: nat
  antialias :: bool
  size :: "rat \<times> rat"
  pixelRatio :: rat

datatype sceneObject =
    AmbientLight nat rat
  | DirectionalLight nat rat "rat \<times> rat \<times> rat"
  | AxesHelper rat
  | GridHelper nat nat nat nat
  | MeshObject

record scene =
  background :: nat
  children :: "sceneObject list"

text \<open>The container element: its bounding rectangle (width, height) and its child canvases.\<close>

record container =
  rect :: "rat \<times> rat"
  childNodes :: "nat list"

text \<open>The variables of the setup effect that its cleanup function closes over.\<close>

record closure =
  cl_geometry :: bufferGeometry
  cl_material :: nat
  cl_renderer :: nat

datatype call =
    NewGeometry nat
  | AttachGeometry nat
  | GeometryDispose nat
  | MaterialDispose nat
  | SceneClear
  | RendererDispose nat
  | Render
  | UpdateProjectionMatrix
  | RequestAnimationFrame nat
  | CancelAnimationFrame nat
  | AddResizeListener
  | RemoveResizeListener

text \<open>
  One mesh, one scene, one camera and one renderer are allocated per instance, by the
  setup effect, which runs once; each lives in the ref that holds it, and the scene names
  the mesh by \<open>MeshObject\<close>. Geometries are replaced, so they carry an identity
  (\<open>geo_id\<close>), as does the material (\<open>mat_id\<close>) and the canvas (\<open>domElement\<close>);
  identities come from \<open>nextId\<close>. Animation-frame handles come from \<open>rafNext\<close> and
  start at 1, as the handles of \<^verbatim>\<open>requestAnimationFrame\<close> are non-zero.
\<close>

record state =
  selectedGeometry :: GeometryItem
  wireframe :: bool
  autoRotate :: bool
  wireframeRef :: bool
  autoRotateRef :: bool
  mountRef :: "container option"
  sceneRef :: "scene option"
  cameraRef :: "camera option"
  rendererRef :: "renderer option"
  currentMeshRef :: "mesh option"
  animRef :: "nat option"
  cleanupClosure :: "closure option"
  localStorage :: "string \<rightharpoonup> string"
  devicePixelRatio :: rat
  nextId :: nat
  rafNext :: nat
  rafPending :: "nat list"
  resizeListener :: bool
  trace :: "call list"

subsection \<open>First render\<close>

definition String_bool :: "bool \<Rightarrow> string" where
  "String_bool b = (if b then ''true'' else ''false'')"

definition initialState :: "container option \<Rightarrow> rat \<Rightarrow> (string \<rightharpoonup> string) \<Rightarrow> state" where
  "initialState el dpr store =
    \<lparr>selectedGeometry = geometries ! 0,
     wireframe = (store ''wireframe'' = Some ''true''),
     autoRotate = (store ''autoRotate'' \<noteq> Some ''false''),
     wireframeRef = (store ''wireframe'' = Some ''true''),
     autoRotateRef = (store ''autoRotate'' \<noteq> Some ''false''),
     mountRef = el,
     sceneRef = None,
     cameraRef = None,
     rendererRef = None,
     currentMeshRef = None,
     animRef = None,
     cleanupClosure = None,
     localStorage = store,
     devicePixelRatio = dpr,
     nextId = 0,
     rafNext = 1,
     rafPending = [],
     resizeListener = False,
     trace = []\<rparr>"

subsection \<open>Effects\<close>

definition syncWireframe :: "state \<Rightarrow> state" where
  "syncWireframe s =
    s\<lparr>wireframeRef := wireframe s,
      localStorage := (localStorage s)(''wireframe'' \<mapsto> String_bool (wireframe s))\<rparr>"

definition syncAutoRotate :: "state \<Rightarrow> state" where
  "syncAutoRotate s =
    s\<lparr>autoRotateRef := autoRotate s,
      localStorage := (localStorage s)(''autoRotate'' \<mapsto> String_bool (autoRotate s))\<rparr>"

definition js_div :: "rat \<Rightarrow> rat \<Rightarrow> rat option" where
  "js_div a b = (if b = 0 then None else Some (a / b))"

definition invokeCreate :: "GeometryItem \<Rightarrow> state \<Rightarrow> bufferGeometry \<times> state" where
  "invokeCreate g s =
    (\<lparr>geo_id = nextId s, built = create g\<rparr>,
     s\<lparr>nextId := nextId s + 1, trace := trace s @ [NewGeometry (nextId s)]\<rparr>)"

text \<open>
  The per-frame callback: schedule the next frame, rotate when the mirror of the
  auto-rotate setting says so and a mesh exists, then draw.
\<close>

definition animate :: "state \<Rightarrow> state" where
  "animate s =
    (let h = rafNext s;
         s1 = s\<lparr>animRef := Some h, rafNext := h + 1, rafPending := rafPending s @ [h],
                trace := trace s @ [RequestAnimationFrame h]\<rparr>;
         s2 = (case currentMeshRef s1 of
                 None \<Rightarrow> s1
               | Some m \<Rightarrow>
                   if autoRotateRef s1
                   then s1\<lparr>currentMeshRef :=
                          Some (m\<lparr>rotation_x := js_add (rotation_x m) (numericLiteral 0.01),
                                  rotation_y := js_add (rotation_y m) (numericLiteral 0.015)\<rparr>)\<rparr>
                   else s1)
     in s2\<lparr>trace := trace s2 @ [Render]\<rparr>)"

definition disposePrevious :: "container \<Rightarrow> state \<Rightarrow> container \<times> state" where
  "disposePrevious el s =
    (case rendererRef s of
       None \<Rightarrow> (el, s)
     | Some r \<Rightarrow>
         (if domElement r \<in> set (childNodes el)
          then el\<lparr>childNodes := remove1 (domElement r) (childNodes el)\<rparr> else el,
          s\<lparr>trace := trace s @ [RendererDispose (domElement r)]\<rparr>))"

definition setupEffect :: "state \<Rightarrow> state" where
  "setupEffect s =
    (case mountRef s of
       None \<Rightarrow> s
     | Some el0 \<Rightarrow>
        (let (el, s1) = disposePrevious el0 s;
             (width, height) = rect el;
             cam = \<lparr>fov = 75, aspect = js_div width height, near = 0.1, far = 1000,
                    cam_position = (3, 2, 4)\<rparr>;
             canvas = nextId s1;
             rend = \<lparr>domElement = canvas, antialias = True, size = (width, height),
                     pixelRatio = devicePixelRatio s1\<rparr>;
             sc = \<lparr>background = 0x0a0a0a,
                   children = [AmbientLight 0xffffff 0.35, DirectionalLight 0xffffff 0.9 (5, 5, 5),
                               AxesHelper 2, GridHelper 10 10 0x444444 0x222222]\<rparr>;
             s2 = s1\<lparr>sceneRef := Some sc, cameraRef := Some cam, rendererRef := Some rend,
                     mountRef := Some (el\<lparr>childNodes := childNodes el @ [canvas]\<rparr>),
                     nextId := canvas + 1\<rparr>;
             (geom, s3) = invokeCreate (selectedGeometry s2) s2;
             mat = \<lparr>mat_id = nextId s3, mat_color = color (selectedGeometry s3),
                    mat_wireframe = wireframe s3, version = 0\<rparr>;
             m = \<lparr>geometry = geom, mesh_material = mat, rotation_x = Finite 0,
                  rotation_y = Finite 0\<rparr>;
             s4 = s3\<lparr>nextId := nextId s3 + 1,
                     sceneRef := Some (sc\<lparr>children := children sc @ [MeshObject]\<rparr>),
                     currentMeshRef := Some m\<rparr>;
             s5 = animate s4
         in s5\<lparr>resizeListener := True,
               trace := trace s5 @ [AddResizeListener],
               cleanupClosure := Some \<lparr>cl_geometry = geom, cl_material = mat_id mat,
                                        cl_renderer = canvas\<rparr>\<rparr>))"

definition handleResize :: "state \<Rightarrow> state" where
  "handleResize s =
    (case (mountRef s, cameraRef s, rendererRef s) of
       (Some el, Some cam, Some r) \<Rightarrow>
         (let w = (if fst (rect el) = 0 then 800 else fst (rect el));
              h = (if snd (rect el) = 0 then 600 else snd (rect el))
          in s\<lparr>cameraRef := Some (cam\<lparr>aspect := js_div w h\<rparr>),
                rendererRef := Some (r\<lparr>size := (w, h)\<rparr>),
                trace := trace s @ [UpdateProjectionMatrix]\<rparr>)
     | _ \<Rightarrow> s)"

text \<open>The cleanup function returned by the setup effect.\<close>

definition cleanup :: "closure \<Rightarrow> state \<Rightarrow> state" where
  "cleanup cl s =
    (let s1 = s\<lparr>resizeListener := False, trace := trace s @ [RemoveResizeListener]\<rparr>;
         s2 = (case animRef s1 of
                 None \<Rightarrow> s1
               | Some h \<Rightarrow>
                   if h \<noteq> 0
                   then s1\<lparr>rafPending := removeAll h (rafPending s1),
                           trace := trace s1 @ [CancelAnimationFrame h]\<rparr>
                   else s1)
     in s2\<lparr>sceneRef := map_option (\<lambda>sc. sc\<lparr>children := []\<rparr>) (sceneRef s2),
           trace := trace s2 @ [GeometryDispose (geo_id (cl_geometry cl)),
                                MaterialDispose (cl_material cl),
                                SceneClear,
                                RendererDispose (cl_renderer cl)]\<rparr>)"

definition selectionEffect :: "state \<Rightarrow> state" where
  "selectionEffect s =
    (case currentMeshRef s of
       None \<Rightarrow> s
     | Some m \<Rightarrow>
        (let oldGeometry = geometry m;
             s1 = s\<lparr>trace := trace s @ [GeometryDispose (geo_id oldGeometry)]\<rparr>;
             (newGeometry, s2) = invokeCreate (selectedGeometry s1) s1;
             mat = mesh_material m
         in s2\<lparr>currentMeshRef :=
                  Some (m\<lparr>geometry := newGeometry,
                          mesh_material := mat\<lparr>mat_color := color (selectedGeometry s2),
                                               mat_wireframe := wireframeRef s2,
                                               version := version mat + 1\<rparr>\<rparr>),
               trace := trace s2 @ [AttachGeometry (geo_id newGeometry)]\<rparr>))"

definition wireframeEffect :: "state \<Rightarrow> state" where
  "wireframeEffect s =
    (case currentMeshRef s of
       None \<Rightarrow> s
     | Some m \<Rightarrow>
         s\<lparr>currentMeshRef :=
             Some (m\<lparr>mesh_material := (mesh_material m)\<lparr>mat_wireframe := wireframe s,
                                                         version := version (mesh_material m) + 1\<rparr>\<rparr>)\<rparr>)"

subsection \<open>The React runtime and the browser\<close>

text \<open>
  After the first render every effect runs once, in the order of declaration. After a
  later render an effect runs when one of its dependencies changed (\<^verbatim>\<open>Object.is\<close>);
  a state setter called with the value already held schedules no render. The catalog is
  memoised, so its entries keep their identity and identity coincides with equality of
  the entries. On unmount the cleanup function of the setup effect runs, if that effect
  returned one.
\<close>

definition mount :: "container option \<Rightarrow> rat \<Rightarrow> (string \<rightharpoonup> string) \<Rightarrow> state" where
  "mount el dpr store =
    wireframeEffect (selectionEffect (setupEffect (syncAutoRotate (syncWireframe
      (initialState el dpr store)))))"

definition selectShape :: "GeometryItem \<Rightarrow> state \<Rightarrow> state" where
  "selectShape g s =
    (if g = selectedGeometry s then s else selectionEffect (s\<lparr>selectedGeometry := g\<rparr>))"

definition toggleWireframe :: "state \<Rightarrow> state" where
  "toggleWireframe s = wireframeEffect (syncWireframe (s\<lparr>wireframe := \<not> wireframe s\<rparr>))"

definition toggleAutoRotate :: "state \<Rightarrow> state" where
  "toggleAutoRotate s = syncAutoRotate (s\<lparr>autoRotate := \<not> autoRotate s\<rparr>)"

text \<open>A display refresh runs the callbacks that were pending when it began.\<close>

definition frame :: "state \<Rightarrow> state" where
  "frame s = fold (\<lambda>h. animate) (rafPending s) (s\<lparr>rafPending := []\<rparr>)"

text \<open>
  The container takes the bounds \<open>(w, h)\<close> and the window announces the resize to the
  listener, if one is registered.
\<close>

definition resize :: "rat \<Rightarrow> rat \<Rightarrow> state \<Rightarrow> state" where
  "resize w h s =
    (let s1 = s\<lparr>mountRef := map_option (\<lambda>el. el\<lparr>rect := (w, h)\<rparr>) (mountRef s)\<rparr>
     in if resizeListener s1 then handleResize s1 else s1)"

definition unmount :: "state \<Rightarrow> state" where
  "unmount s = (case cleanupClosure s of None \<Rightarrow> s | Some cl \<Rightarrow> cleanup cl s)"

text \<open>The states of a mounted instance: what user and browser events reach from a mount.\<close>

inductive reachable :: "state \<Rightarrow> bool" where
  r_mount: "reachable (mount el dpr store)"
| r_select: "reachable s \<Longrightarrow> g \<in> set geometries \<Longrightarrow> reachable (selectShape g s)"
| r_wireframe: "reachable s \<Longrightarrow> reachable (toggleWireframe s)"
| r_autoRotate: "reachable s \<Longrightarrow> reachable (toggleAutoRotate s)"
| r_frame: "reachable s \<Longrightarrow> reachable (frame s)"
| r_resize: "reachable s \<Longrightarrow> reachable (resize w h s)"

subsection \<open>Consistency of a mounted instance\<close>

text \<open>
  What every reachable state satisfies: the mirrors agree with the settings, every
  disposed geometry was allocated, the next frame handle is not zero, and while a mesh is displayed its material shows the
  wireframe setting, its geometry is allocated and not disposed, one frame is pending
  under the handle kept in \<open>animRef\<close>, and the cleanup closure holds the mesh's material
  and a geometry that is older than the displayed one and already disposed.
\<close>

fun disposedBelow :: "nat \<Rightarrow> call \<Rightarrow> bool" where
  "disposedBelow n (GeometryDispose i) = (i < n)"
| "disposedBelow n _ = True"

definition consistent :: "state \<Rightarrow> bool" where
  "consistent s =
    (wireframeRef s = wireframe s \<and> autoRotateRef s = autoRotate s \<and>
     list_all (disposedBelow (nextId s)) (trace s) \<and> 0 < rafNext s \<and>
     (case currentMeshRef s of
        None \<Rightarrow> rafPending s = [] \<and> cleanupClosure s = None
      | Some m \<Rightarrow>
          mat_wireframe (mesh_material m) = wireframe s \<and>
          geo_id (geometry m) < nextId s \<and>
          GeometryDispose (geo_id (geometry m)) \<notin> set (trace s) \<and>
          (case rafPending s of
             [h] \<Rightarrow> animRef s = Some h \<and> 0 < h
           | _ \<Rightarrow> False) \<and>
          (case cleanupClosure s of
             None \<Rightarrow> False
           | Some cl \<Rightarrow>
               cl_material cl = mat_id (mesh_material m) \<and>
               geo_id (cl_geometry cl) < geo_id (geometry m) \<and>
               GeometryDispose (geo_id (cl_geometry cl)) \<in> set (trace s))))"

subsection \<open>Concrete inputs\<close>

text \<open>A container of 1024 by 768 pixels, and the catalog entries named Box and Torus.\<close>

definition host :: container where
  "host = \<lparr>rect = (1024, 768), childNodes = []\<rparr>"

definition boxItem :: GeometryItem where
  "boxItem = geometries ! 1"

definition torusItem :: GeometryItem where
  "torusItem = geometries ! 4"

section \<open>Properties\<close>

subsection \<open>Doubles\<close>

lemma round64_value:
  assumes "x \<noteq> 0" and "exponent x = e" and "- 1022 \<le> e"
    and "roundHalfEven (x / pow2 (e - 52)) = n" and "of_int n * pow2 (e - 52) = r"
    and "\<bar>r\<bar> < pow2 1024"
  shows "round64 x = Finite r"
  using assms by (simp add: round64_def Let_def max_def)

lemma literal_values:
  "numericLiteral 0.01 = Finite (5764607523034235 / 576460752303423488)"
  "numericLiteral 0.015 = Finite (1080863910568919 / 72057594037927936)"
  unfolding numericLiteral_def
   apply (rule round64_value [where e = "- 7" and n = 5764607523034235])
        apply simp
       apply code_simp
      apply simp
     apply code_simp
    apply (simp add: pow2_def)
   apply (simp add: pow2_def)
  apply (rule round64_value [where e = "- 7" and n = 8646911284551352])
       apply simp
      apply code_simp
     apply simp
    apply code_simp
   apply (simp add: pow2_def)
  apply (simp add: pow2_def)
  done

text \<open>The first three values of each angle, as the doubles they are.\<close>

lemma angle_x_steps:
  "js_add (Finite 0) (numericLiteral 0.01) = Finite (5764607523034235 / 576460752303423488)"
  "js_add (Finite (5764607523034235 / 576460752303423488)) (numericLiteral 0.01) = Finite (5764607523034235 / 288230376151711744)"
  "js_add (Finite (5764607523034235 / 288230376151711744)) (numericLiteral 0.01) = Finite (1080863910568919 / 36028797018963968)"
  unfolding literal_values js_add.simps
    apply (rule round64_value [where e = "- 7" and n = 5764607523034235])
         apply simp
        apply code_simp
       apply simp
      apply code_simp
     apply (simp add: pow2_def)
    apply (simp add: pow2_def)
   apply (rule round64_value [where e = "- 6" and n = 5764607523034235])
        apply simp
       apply code_simp
      apply simp
     apply code_simp
    apply (simp add: pow2_def)
   apply (simp add: pow2_def)
  apply (rule round64_value [where e = "- 6" and n = 8646911284551352])
       apply simp
      apply code_simp
     apply simp
    apply code_simp
   apply (simp add: pow2_def)
  apply (simp add: pow2_def)
  done

lemma angle_y_steps:
  "js_add (Finite 0) (numericLiteral 0.015) = Finite (1080863910568919 / 72057594037927936)"
  "js_add (Finite (1080863910568919 / 72057594037927936)) (numericLiteral 0.015) = Finite (1080863910568919 / 36028797018963968)"
  "js_add (Finite (1080863910568919 / 36028797018963968)) (numericLiteral 0.015) = Finite (3242591731706757 / 72057594037927936)"
  unfolding literal_values js_add.simps
    apply (rule round64_value [where e = "- 7" and n = 8646911284551352])
         apply simp
        apply code_simp
       apply simp
      apply code_simp
     apply (simp add: pow2_def)
    apply (simp add: pow2_def)
   apply (rule round64_value [where e = "- 6" and n = 8646911284551352])
        apply simp
       apply code_simp
      apply simp
     apply code_simp
    apply (simp add: pow2_def)
   apply (simp add: pow2_def)
  apply (rule round64_value [where e = "- 5" and n = 6485183463413514])
       apply simp
      apply code_simp
     apply simp
    apply code_simp
   apply (simp add: pow2_def)
  apply (simp add: pow2_def)
  done

text \<open>The same facts with the literals in the form the simplifier gives them.\<close>

lemmas literal_values_simp = literal_values [simplified]

lemmas angle_steps_simp = angle_x_steps [simplified] angle_y_steps [simplified]

subsection \<open>What each effect does to each field\<close>

lemma animate_fields:
  "selectedGeometry (animate s) = selectedGeometry s"
  "wireframe (animate s) = wireframe s"
  "autoRotate (animate s) = autoRotate s"
  "wireframeRef (animate s) = wireframeRef s"
  "autoRotateRef (animate s) = autoRotateRef s"
  "mountRef (animate s) = mountRef s"
  "sceneRef (animate s) = sceneRef s"
  "cameraRef (animate s) = cameraRef s"
  "rendererRef (animate s) = rendererRef s"
  "currentMeshRef (animate s) =
     (if autoRotateRef s
      then map_option (\<lambda>m. m\<lparr>rotation_x := js_add (rotation_x m) (numericLiteral 0.01),
                                rotation_y := js_add (rotation_y m) (numericLiteral 0.015)\<rparr>) (currentMeshRef s)
      else currentMeshRef s)"
  "animRef (animate s) = Some (rafNext s)"
  "cleanupClosure (animate s) = cleanupClosure s"
  "localStorage (animate s) = localStorage s"
  "devicePixelRatio (animate s) = devicePixelRatio s"
  "nextId (animate s) = nextId s"
  "rafNext (animate s) = rafNext s + 1"
  "rafPending (animate s) = rafPending s @ [rafNext s]"
  "resizeListener (animate s) = resizeListener s"
  "trace (animate s) = trace s @ [RequestAnimationFrame (rafNext s), Render]"
  by (simp_all add: animate_def Let_def split: option.splits)

lemma selectionEffect_fields:
  "selectedGeometry (selectionEffect s) = selectedGeometry s"
  "wireframe (selectionEffect s) = wireframe s"
  "autoRotate (selectionEffect s) = autoRotate s"
  "wireframeRef (selectionEffect s) = wireframeRef s"
  "autoRotateRef (selectionEffect s) = autoRotateRef s"
  "mountRef (selectionEffect s) = mountRef s"
  "sceneRef (selectionEffect s) = sceneRef s"
  "cameraRef (selectionEffect s) = cameraRef s"
  "rendererRef (selectionEffect s) = rendererRef s"
  "currentMeshRef (selectionEffect s) =
     map_option (\<lambda>m. m\<lparr>geometry := \<lparr>geo_id = nextId s, built = create (selectedGeometry s)\<rparr>,
                         mesh_material := (mesh_material m)\<lparr>mat_color := color (selectedGeometry s),
                                               mat_wireframe := wireframeRef s,
                                               version := version (mesh_material m) + 1\<rparr>\<rparr>) (currentMeshRef s)"
  "animRef (selectionEffect s) = animRef s"
  "cleanupClosure (selectionEffect s) = cleanupClosure s"
  "localStorage (selectionEffect s) = localStorage s"
  "devicePixelRatio (selectionEffect s) = devicePixelRatio s"
  "nextId (selectionEffect s) = (case currentMeshRef s of None \<Rightarrow> nextId s | Some m \<Rightarrow> nextId s + 1)"
  "rafNext (selectionEffect s) = rafNext s"
  "rafPending (selectionEffect s) = rafPending s"
  "resizeListener (selectionEffect s) = resizeListener s"
  "trace (selectionEffect s) =
     (case currentMeshRef s of None \<Rightarrow> trace s
      | Some m \<Rightarrow> trace s @ [GeometryDispose (geo_id (geometry m)), NewGeometry (nextId s),
                              AttachGeometry (nextId s)])"
  by (simp_all add: selectionEffect_def invokeCreate_def Let_def split: option.splits)

lemma wireframeEffect_fields:
  "selectedGeometry (wireframeEffect s) = selectedGeometry s"
  "wireframe (wireframeEffect s) = wireframe s"
  "autoRotate (wireframeEffect s) = autoRotate s"
  "wireframeRef (wireframeEffect s) = wireframeRef s"
  "autoRotateRef (wireframeEffect s) = autoRotateRef s"
  "mountRef (wireframeEffect s) = mountRef s"
  "sceneRef (wireframeEffect s) = sceneRef s"
  "cameraRef (wireframeEffect s) = cameraRef s"
  "rendererRef (wireframeEffect s) = rendererRef s"
  "currentMeshRef (wireframeEffect s) =
     map_option (\<lambda>m. m\<lparr>mesh_material := (mesh_material m)\<lparr>mat_wireframe := wireframe s,
                                                               version := version (mesh_material m) + 1\<rparr>\<rparr>)
       (currentMeshRef s)"
  "animRef (wireframeEffect s) = animRef s"
  "cleanupClosure (wireframeEffect s) = cleanupClosure s"
  "localStorage (wireframeEffect s) = localStorage s"
  "devicePixelRatio (wireframeEffect s) = devicePixelRatio s"
  "nextId (wireframeEffect s) = nextId s"
  "rafNext (wireframeEffect s) = rafNext s"
  "rafPending (wireframeEffect s) = rafPending s"
  "resizeListener (wireframeEffect s) = resizeListener s"
  "trace (wireframeEffect s) = trace s"
  by (simp_all add: wireframeEffect_def split: option.splits)

lemma handleResize_fields:
  "selectedGeometry (handleResize s) = selectedGeometry s"
  "wireframe (handleResize s) = wireframe s"
  "autoRotate (handleResize s) = autoRotate s"
  "wireframeRef (handleResize s) = wireframeRef s"
  "autoRotateRef (handleResize s) = autoRotateRef s"
  "mountRef (handleResize s) = mountRef s"
  "sceneRef (handleResize s) = sceneRef s"
  "currentMeshRef (handleResize s) = currentMeshRef s"
  "animRef (handleResize s) = animRef s"
  "cleanupClosure (handleResize s) = cleanupClosure s"
  "localStorage (handleResize s) = localStorage s"
  "devicePixelRatio (handleResize s) = devicePixelRatio s"
  "nextId (handleResize s) = nextId s"
  "rafNext (handleResize s) = rafNext s"
  "rafPending (handleResize s) = rafPending s"
  "resizeListener (handleResize s) = resizeListener s"
  "trace (handleResize s) =
     (if mountRef s \<noteq> None \<and> cameraRef s \<noteq> None \<and> rendererRef s \<noteq> None
      then trace s @ [UpdateProjectionMatrix] else trace s)"
  by (auto simp add: handleResize_def Let_def split: option.splits)

lemma animate_explicit:
  "animate s =
    s\<lparr>animRef := Some (rafNext s), rafNext := rafNext s + 1,
      rafPending := rafPending s @ [rafNext s],
      currentMeshRef :=
        (if autoRotateRef s
         then map_option (\<lambda>m. m\<lparr>rotation_x := js_add (rotation_x m) (numericLiteral 0.01),
                                   rotation_y := js_add (rotation_y m) (numericLiteral 0.015)\<rparr>) (currentMeshRef s)
         else currentMeshRef s),
      trace := trace s @ [RequestAnimationFrame (rafNext s), Render]\<rparr>"
  by (simp add: animate_def Let_def split: option.splits)

lemma invokeCreate_explicit:
  "fst (invokeCreate g s) = \<lparr>geo_id = nextId s, built = create g\<rparr>"
  "snd (invokeCreate g s) = s\<lparr>nextId := nextId s + 1, trace := trace s @ [NewGeometry (nextId s)]\<rparr>"
  by (simp_all add: invokeCreate_def)

lemma setupEffect_first:
  assumes "mountRef s = Some el" and "rendererRef s = None"
  shows "setupEffect s =
    s\<lparr>sceneRef := Some \<lparr>background = 0x0a0a0a,
          children = [AmbientLight 0xffffff 0.35, DirectionalLight 0xffffff 0.9 (5, 5, 5),
                      AxesHelper 2, GridHelper 10 10 0x444444 0x222222, MeshObject]\<rparr>,
       cameraRef := Some \<lparr>fov = 75, aspect = js_div (fst (rect el)) (snd (rect el)), near = 0.1,
          far = 1000, cam_position = (3, 2, 4)\<rparr>,
       rendererRef := Some \<lparr>domElement = nextId s, antialias = True, size = rect el,
          pixelRatio = devicePixelRatio s\<rparr>,
       mountRef := Some (el\<lparr>childNodes := childNodes el @ [nextId s]\<rparr>),
       nextId := nextId s + 3,
       currentMeshRef := Some
         \<lparr>geometry = \<lparr>geo_id = nextId s + 1, built = create (selectedGeometry s)\<rparr>,
          mesh_material = \<lparr>mat_id = nextId s + 2, mat_color = color (selectedGeometry s),
             mat_wireframe = wireframe s, version = 0\<rparr>,
          rotation_x = (if autoRotateRef s then js_add (Finite 0) (numericLiteral 0.01) else Finite 0),
          rotation_y = (if autoRotateRef s then js_add (Finite 0) (numericLiteral 0.015) else Finite 0)\<rparr>,
       animRef := Some (rafNext s),
       rafNext := rafNext s + 1,
       rafPending := rafPending s @ [rafNext s],
       resizeListener := True,
       trace := trace s @ [NewGeometry (nextId s + 1), RequestAnimationFrame (rafNext s), Render,
                           AddResizeListener],
       cleanupClosure := Some \<lparr>cl_geometry = \<lparr>geo_id = nextId s + 1,
                                   built = create (selectedGeometry s)\<rparr>,
                                 cl_material = nextId s + 2, cl_renderer = nextId s\<rparr>\<rparr>"
  using assms
  by (simp add: setupEffect_def disposePrevious_def case_prod_beta invokeCreate_explicit animate_explicit Let_def)

lemma setupEffect_fields:
  "selectedGeometry (setupEffect s) = selectedGeometry s"
  "wireframe (setupEffect s) = wireframe s"
  "autoRotate (setupEffect s) = autoRotate s"
  "wireframeRef (setupEffect s) = wireframeRef s"
  "autoRotateRef (setupEffect s) = autoRotateRef s"
  "localStorage (setupEffect s) = localStorage s"
  "devicePixelRatio (setupEffect s) = devicePixelRatio s"
  by (simp_all add: setupEffect_def invokeCreate_def disposePrevious_def animate_fields Let_def
      split: option.splits prod.splits)

lemma setupEffect_None: "mountRef s = None \<Longrightarrow> setupEffect s = s"
  by (simp add: setupEffect_def)

lemma sync_fields:
  "syncWireframe s = s\<lparr>wireframeRef := wireframe s,
      localStorage := (localStorage s)(''wireframe'' \<mapsto> String_bool (wireframe s))\<rparr>"
  "syncAutoRotate s = s\<lparr>autoRotateRef := autoRotate s,
      localStorage := (localStorage s)(''autoRotate'' \<mapsto> String_bool (autoRotate s))\<rparr>"
  by (simp_all add: syncWireframe_def syncAutoRotate_def)

lemma first_entry: "geometries ! 0 = \<lparr>name = ''Sphere'', category = ''Primitivas'',
    description = ''Esfera'', create = SphereGeometry 1 32 16, color = ''#FF6B6B''\<rparr>"
  by (simp add: geometries_def)

lemma mount_settings:
  "selectedGeometry (mount el dpr store) = geometries ! 0"
  "wireframe (mount el dpr store) = (store ''wireframe'' = Some ''true'')"
  "autoRotate (mount el dpr store) = (store ''autoRotate'' \<noteq> Some ''false'')"
  "wireframeRef (mount el dpr store) = (store ''wireframe'' = Some ''true'')"
  "autoRotateRef (mount el dpr store) = (store ''autoRotate'' \<noteq> Some ''false'')"
  "devicePixelRatio (mount el dpr store) = dpr"
  by (simp_all add: mount_def wireframeEffect_fields selectionEffect_fields setupEffect_fields
      sync_fields initialState_def)

lemma mount_None:
  "currentMeshRef (mount None dpr store) = None"
  "rafNext (mount None dpr store) = 1"
  "cleanupClosure (mount None dpr store) = None"
  "rafPending (mount None dpr store) = []"
  "trace (mount None dpr store) = []"
  "nextId (mount None dpr store) = 0"
  by (simp_all add: mount_def wireframeEffect_fields selectionEffect_fields setupEffect_None
      sync_fields initialState_def)

lemma setup_at_mount:
  "setupEffect (syncAutoRotate (syncWireframe (initialState (Some el) dpr store))) =
    (syncAutoRotate (syncWireframe (initialState (Some el) dpr store)))
    \<lparr>sceneRef := Some \<lparr>background = 0x0a0a0a,
          children = [AmbientLight 0xffffff 0.35, DirectionalLight 0xffffff 0.9 (5, 5, 5),
                      AxesHelper 2, GridHelper 10 10 0x444444 0x222222, MeshObject]\<rparr>,
       cameraRef := Some \<lparr>fov = 75, aspect = js_div (fst (rect el)) (snd (rect el)), near = 0.1,
          far = 1000, cam_position = (3, 2, 4)\<rparr>,
       rendererRef := Some \<lparr>domElement = 0, antialias = True, size = rect el,
          pixelRatio = dpr\<rparr>,
       mountRef := Some (el\<lparr>childNodes := childNodes el @ [0]\<rparr>),
       nextId := 3,
       currentMeshRef := Some
         \<lparr>geometry = \<lparr>geo_id = 1, built = SphereGeometry 1 32 16\<rparr>,
          mesh_material = \<lparr>mat_id = 2, mat_color = ''#FF6B6B'',
             mat_wireframe = (store ''wireframe'' = Some ''true''), version = 0\<rparr>,
          rotation_x = (if store ''autoRotate'' \<noteq> Some ''false'' then js_add (Finite 0) (numericLiteral 0.01) else Finite 0),
          rotation_y = (if store ''autoRotate'' \<noteq> Some ''false'' then js_add (Finite 0) (numericLiteral 0.015) else Finite 0)\<rparr>,
       animRef := Some 1,
       rafNext := 2,
       rafPending := [1],
       resizeListener := True,
       trace := [NewGeometry 1, RequestAnimationFrame 1, Render, AddResizeListener],
       cleanupClosure := Some \<lparr>cl_geometry = \<lparr>geo_id = 1, built = SphereGeometry 1 32 16\<rparr>,
                                 cl_material = 2, cl_renderer = 0\<rparr>\<rparr>"
  by (subst setupEffect_first [where el = el])
     (simp_all add: sync_fields initialState_def first_entry)

lemma mount_Some:
  "currentMeshRef (mount (Some el) dpr store) = Some
     \<lparr>geometry = \<lparr>geo_id = 3, built = SphereGeometry 1 32 16\<rparr>,
      mesh_material = \<lparr>mat_id = 2, mat_color = ''#FF6B6B'',
         mat_wireframe = (store ''wireframe'' = Some ''true''), version = 2\<rparr>,
      rotation_x = (if store ''autoRotate'' \<noteq> Some ''false'' then js_add (Finite 0) (numericLiteral 0.01) else Finite 0),
      rotation_y = (if store ''autoRotate'' \<noteq> Some ''false'' then js_add (Finite 0) (numericLiteral 0.015) else Finite 0)\<rparr>"
  "trace (mount (Some el) dpr store) =
     [NewGeometry 1, RequestAnimationFrame 1, Render, AddResizeListener,
      GeometryDispose 1, NewGeometry 3, AttachGeometry 3]"
  "nextId (mount (Some el) dpr store) = 4"
  "rafPending (mount (Some el) dpr store) = [1]"
  "rafNext (mount (Some el) dpr store) = 2"
  "animRef (mount (Some el) dpr store) = Some 1"
  "resizeListener (mount (Some el) dpr store)"
  "cleanupClosure (mount (Some el) dpr store) =
     Some \<lparr>cl_geometry = \<lparr>geo_id = 1, built = SphereGeometry 1 32 16\<rparr>,
           cl_material = 2, cl_renderer = 0\<rparr>"
  "mountRef (mount (Some el) dpr store) = Some (el\<lparr>childNodes := childNodes el @ [0]\<rparr>)"
  "cameraRef (mount (Some el) dpr store) =
     Some \<lparr>fov = 75, aspect = js_div (fst (rect el)) (snd (rect el)), near = 0.1,
           far = 1000, cam_position = (3, 2, 4)\<rparr>"
  "rendererRef (mount (Some el) dpr store) =
     Some \<lparr>domElement = 0, antialias = True, size = rect el, pixelRatio = dpr\<rparr>"
  "sceneRef (mount (Some el) dpr store) =
     Some \<lparr>background = 0x0a0a0a,
          children = [AmbientLight 0xffffff 0.35, DirectionalLight 0xffffff 0.9 (5, 5, 5),
                      AxesHelper 2, GridHelper 10 10 0x444444 0x222222, MeshObject]\<rparr>"
  unfolding mount_def setup_at_mount
  by (simp_all add: wireframeEffect_fields selectionEffect_fields sync_fields initialState_def first_entry)

lemma selectShape_fields:
  "selectedGeometry (selectShape g s) = g"
  "wireframe (selectShape g s) = wireframe s"
  "autoRotate (selectShape g s) = autoRotate s"
  "wireframeRef (selectShape g s) = wireframeRef s"
  "autoRotateRef (selectShape g s) = autoRotateRef s"
  "mountRef (selectShape g s) = mountRef s"
  "sceneRef (selectShape g s) = sceneRef s"
  "cameraRef (selectShape g s) = cameraRef s"
  "rendererRef (selectShape g s) = rendererRef s"
  "currentMeshRef (selectShape g s) =
     (if g = selectedGeometry s then currentMeshRef s
      else map_option (\<lambda>m. m\<lparr>geometry := \<lparr>geo_id = nextId s, built = create g\<rparr>,
                         mesh_material := (mesh_material m)\<lparr>mat_color := color g,
                                               mat_wireframe := wireframeRef s,
                                               version := version (mesh_material m) + 1\<rparr>\<rparr>) (currentMeshRef s))"
  "animRef (selectShape g s) = animRef s"
  "cleanupClosure (selectShape g s) = cleanupClosure s"
  "localStorage (selectShape g s) = localStorage s"
  "devicePixelRatio (selectShape g s) = devicePixelRatio s"
  "nextId (selectShape g s) =
     (if g = selectedGeometry s then nextId s
      else case currentMeshRef s of None \<Rightarrow> nextId s | Some m \<Rightarrow> nextId s + 1)"
  "rafNext (selectShape g s) = rafNext s"
  "rafPending (selectShape g s) = rafPending s"
  "resizeListener (selectShape g s) = resizeListener s"
  "trace (selectShape g s) =
     (if g = selectedGeometry s then trace s
      else case currentMeshRef s of None \<Rightarrow> trace s
      | Some m \<Rightarrow> trace s @ [GeometryDispose (geo_id (geometry m)), NewGeometry (nextId s),
                              AttachGeometry (nextId s)])"
  by (simp_all add: selectShape_def selectionEffect_fields split: option.splits)

lemma toggleWireframe_fields:
  "selectedGeometry (toggleWireframe s) = selectedGeometry s"
  "wireframe (toggleWireframe s) = (\<not> wireframe s)"
  "autoRotate (toggleWireframe s) = autoRotate s"
  "wireframeRef (toggleWireframe s) = (\<not> wireframe s)"
  "autoRotateRef (toggleWireframe s) = autoRotateRef s"
  "mountRef (toggleWireframe s) = mountRef s"
  "sceneRef (toggleWireframe s) = sceneRef s"
  "cameraRef (toggleWireframe s) = cameraRef s"
  "rendererRef (toggleWireframe s) = rendererRef s"
  "currentMeshRef (toggleWireframe s) =
     map_option (\<lambda>m. m\<lparr>mesh_material := (mesh_material m)\<lparr>mat_wireframe := \<not> wireframe s,
                                                               version := version (mesh_material m) + 1\<rparr>\<rparr>)
       (currentMeshRef s)"
  "animRef (toggleWireframe s) = animRef s"
  "cleanupClosure (toggleWireframe s) = cleanupClosure s"
  "localStorage (toggleWireframe s) =
     (localStorage s)(''wireframe'' \<mapsto> String_bool (\<not> wireframe s))"
  "devicePixelRatio (toggleWireframe s) = devicePixelRatio s"
  "nextId (toggleWireframe s) = nextId s"
  "rafNext (toggleWireframe s) = rafNext s"
  "rafPending (toggleWireframe s) = rafPending s"
  "resizeListener (toggleWireframe s) = resizeListener s"
  "trace (toggleWireframe s) = trace s"
  by (simp_all add: toggleWireframe_def wireframeEffect_fields sync_fields)

lemma toggleAutoRotate_fields:
  "selectedGeometry (toggleAutoRotate s) = selectedGeometry s"
  "wireframe (toggleAutoRotate s) = wireframe s"
  "autoRotate (toggleAutoRotate s) = (\<not> autoRotate s)"
  "wireframeRef (toggleAutoRotate s) = wireframeRef s"
  "autoRotateRef (toggleAutoRotate s) = (\<not> autoRotate s)"
  "mountRef (toggleAutoRotate s) = mountRef s"
  "sceneRef (toggleAutoRotate s) = sceneRef s"
  "cameraRef (toggleAutoRotate s) = cameraRef s"
  "rendererRef (toggleAutoRotate s) = rendererRef s"
  "currentMeshRef (toggleAutoRotate s) = currentMeshRef s"
  "animRef (toggleAutoRotate s) = animRef s"
  "cleanupClosure (toggleAutoRotate s) = cleanupClosure s"
  "localStorage (toggleAutoRotate s) =
     (localStorage s)(''autoRotate'' \<mapsto> String_bool (\<not> autoRotate s))"
  "devicePixelRatio (toggleAutoRotate s) = devicePixelRatio s"
  "nextId (toggleAutoRotate s) = nextId s"
  "rafNext (toggleAutoRotate s) = rafNext s"
  "rafPending (toggleAutoRotate s) = rafPending s"
  "resizeListener (toggleAutoRotate s) = resizeListener s"
  "trace (toggleAutoRotate s) = trace s"
  by (simp_all add: toggleAutoRotate_def sync_fields)

lemma resize_fields:
  "selectedGeometry (resize w h s) = selectedGeometry s"
  "wireframe (resize w h s) = wireframe s"
  "autoRotate (resize w h s) = autoRotate s"
  "wireframeRef (resize w h s) = wireframeRef s"
  "autoRotateRef (resize w h s) = autoRotateRef s"
  "mountRef (resize w h s) = map_option (\<lambda>el. el\<lparr>rect := (w, h)\<rparr>) (mountRef s)"
  "sceneRef (resize w h s) = sceneRef s"
  "currentMeshRef (resize w h s) = currentMeshRef s"
  "animRef (resize w h s) = animRef s"
  "cleanupClosure (resize w h s) = cleanupClosure s"
  "localStorage (resize w h s) = localStorage s"
  "devicePixelRatio (resize w h s) = devicePixelRatio s"
  "nextId (resize w h s) = nextId s"
  "rafNext (resize w h s) = rafNext s"
  "rafPending (resize w h s) = rafPending s"
  "resizeListener (resize w h s) = resizeListener s"
  "trace (resize w h s) =
     (if resizeListener s \<and> mountRef s \<noteq> None \<and> cameraRef s \<noteq> None \<and> rendererRef s \<noteq> None
      then trace s @ [UpdateProjectionMatrix] else trace s)"
  by (simp_all add: resize_def handleResize_fields Let_def)

lemma frame_idle: "rafPending s = [] \<Longrightarrow> frame s = s"
  by (simp add: frame_def)

lemma frame_one: "rafPending s = [h] \<Longrightarrow> frame s = animate (s\<lparr>rafPending := []\<rparr>)"
  by (simp add: frame_def)

lemma cleanup_fields:
  "selectedGeometry (cleanup cl s) = selectedGeometry s"
  "wireframe (cleanup cl s) = wireframe s"
  "autoRotate (cleanup cl s) = autoRotate s"
  "currentMeshRef (cleanup cl s) = currentMeshRef s"
  "resizeListener (cleanup cl s) = False"
  "sceneRef (cleanup cl s) = map_option (\<lambda>sc. sc\<lparr>children := []\<rparr>) (sceneRef s)"
  "rafPending (cleanup cl s) =
     (case animRef s of None \<Rightarrow> rafPending s
      | Some h \<Rightarrow> if h \<noteq> 0 then removeAll h (rafPending s) else rafPending s)"
  "trace (cleanup cl s) =
     trace s @ [RemoveResizeListener] @
     (case animRef s of None \<Rightarrow> []
      | Some h \<Rightarrow> if h \<noteq> 0 then [CancelAnimationFrame h] else []) @
     [GeometryDispose (geo_id (cl_geometry cl)), MaterialDispose (cl_material cl), SceneClear,
      RendererDispose (cl_renderer cl)]"
  by (simp_all add: cleanup_def Let_def split: option.splits)

lemma disposedBelow_mono:
  "list_all (disposedBelow n) tr \<Longrightarrow> n \<le> n' \<Longrightarrow> list_all (disposedBelow n') tr"
proof (induction tr)
  case Nil
  then show ?case by simp
next
  case (Cons c tr)
  then show ?case by (cases c) auto
qed

lemma disposedBelow_fresh:
  "list_all (disposedBelow n) tr \<Longrightarrow> GeometryDispose i \<in> set tr \<Longrightarrow> i < n"
  by (induction tr) auto

lemma consistent_mount: "consistent (mount el dpr store)"
proof (cases el)
  case None
  then show ?thesis
    by (simp add: consistent_def mount_settings mount_None)
next
  case (Some e)
  then show ?thesis
    by (simp add: consistent_def mount_settings mount_Some)
qed

lemma consistent_selectShape:
  assumes "consistent s"
  shows "consistent (selectShape g s)"
proof (cases "g = selectedGeometry s")
  case True
  then show ?thesis using assms by (simp add: selectShape_def)
next
  case changed: False
  show ?thesis
  proof (cases "currentMeshRef s")
    case None
    then show ?thesis using assms changed
      by (simp add: consistent_def selectShape_fields)
  next
    case (Some m)
    from assms Some have below: "list_all (disposedBelow (nextId s)) (trace s)"
      and old: "geo_id (geometry m) < nextId s"
      by (simp_all add: consistent_def)
    from below have fresh: "GeometryDispose (nextId s) \<notin> set (trace s)"
      using disposedBelow_fresh by blast
    from below have "list_all (disposedBelow (nextId s + 1)) (trace s)"
      by (rule disposedBelow_mono) simp
    with assms Some changed old fresh show ?thesis
      by (auto simp add: consistent_def selectShape_fields split: option.splits list.splits)
  qed
qed

lemma consistent_toggleWireframe:
  assumes "consistent s"
  shows "consistent (toggleWireframe s)"
  using assms
  by (cases "currentMeshRef s") (auto simp add: consistent_def toggleWireframe_fields split: option.splits list.splits)

lemma consistent_toggleAutoRotate:
  assumes "consistent s"
  shows "consistent (toggleAutoRotate s)"
  using assms
  by (cases "currentMeshRef s") (auto simp add: consistent_def toggleAutoRotate_fields split: option.splits list.splits)

lemma consistent_resize:
  assumes "consistent s"
  shows "consistent (resize w h s)"
  using assms
  by (cases "currentMeshRef s") (auto simp add: consistent_def resize_fields split: option.splits list.splits)

lemma consistent_frame:
  assumes "consistent s"
  shows "consistent (frame s)"
proof (cases "currentMeshRef s")
  case None
  with assms have "rafPending s = []" by (simp add: consistent_def)
  then show ?thesis using assms by (simp add: frame_idle)
next
  case (Some m)
  with assms obtain h where h: "rafPending s = [h]" "animRef s = Some h" "0 < h"
    by (auto simp add: consistent_def split: list.splits)
  have step: "frame s = animate (s\<lparr>rafPending := []\<rparr>)"
    using h(1) by (rule frame_one)
  from assms Some h show ?thesis
    unfolding step
    by (auto simp add: consistent_def animate_fields split: option.splits list.splits)
qed

lemma reachable_consistent: "reachable s \<Longrightarrow> consistent s"
proof (induction rule: reachable.induct)
  case (r_mount el dpr store)
  show ?case by (rule consistent_mount)
next
  case (r_select s g)
  then show ?case by (simp add: consistent_selectShape)
next
  case (r_wireframe s)
  then show ?case by (simp add: consistent_toggleWireframe)
next
  case (r_autoRotate s)
  then show ?case by (simp add: consistent_toggleAutoRotate)
next
  case (r_frame s)
  then show ?case by (simp add: consistent_frame)
next
  case (r_resize s w h)
  then show ?case by (simp add: consistent_resize)
qed

text \<open>While a mesh is displayed, a display refresh runs the per-frame callback once.\<close>

lemma frame_running:
  assumes "consistent s" and "currentMeshRef s = Some m"
  shows "frame s = animate (s\<lparr>rafPending := []\<rparr>)"
proof -
  from assms obtain h where "rafPending s = [h]"
    by (auto simp add: consistent_def split: list.splits)
  then show ?thesis by (rule frame_one)
qed

text \<open>The displayed mesh after a mount with an empty store, and after one and two frames.\<close>

lemma mount_mesh:
  "currentMeshRef (mount (Some el) dpr Map.empty) = Some
     \<lparr>geometry = \<lparr>geo_id = 3, built = SphereGeometry 1 32 16\<rparr>,
      mesh_material = \<lparr>mat_id = 2, mat_color = ''#FF6B6B'', mat_wireframe = False, version = 2\<rparr>,
      rotation_x = Finite (5764607523034235 / 576460752303423488),
      rotation_y = Finite (1080863910568919 / 72057594037927936)\<rparr>"
  by (simp add: mount_Some angle_steps_simp)

lemma mount_frame_mesh:
  "currentMeshRef (frame (mount (Some el) dpr Map.empty)) = Some
     \<lparr>geometry = \<lparr>geo_id = 3, built = SphereGeometry 1 32 16\<rparr>,
      mesh_material = \<lparr>mat_id = 2, mat_color = ''#FF6B6B'', mat_wireframe = False, version = 2\<rparr>,
      rotation_x = Finite (5764607523034235 / 288230376151711744),
      rotation_y = Finite (1080863910568919 / 36028797018963968)\<rparr>"
proof -
  have "frame (mount (Some el) dpr Map.empty) =
      animate ((mount (Some el) dpr Map.empty)\<lparr>rafPending := []\<rparr>)"
    by (rule frame_running [OF consistent_mount mount_mesh])
  then show ?thesis
    by (simp add: animate_fields mount_settings mount_mesh angle_steps_simp)
qed

lemma mount_frame_frame_mesh:
  "currentMeshRef (frame (frame (mount (Some el) dpr Map.empty))) = Some
     \<lparr>geometry = \<lparr>geo_id = 3, built = SphereGeometry 1 32 16\<rparr>,
      mesh_material = \<lparr>mat_id = 2, mat_color = ''#FF6B6B'', mat_wireframe = False, version = 2\<rparr>,
      rotation_x = Finite (1080863910568919 / 36028797018963968),
      rotation_y = Finite (3242591731706757 / 72057594037927936)\<rparr>"
proof -
  let ?s = "frame (mount (Some el) dpr Map.empty)"
  have on: "autoRotateRef ?s"
    using consistent_frame [OF consistent_mount, of "Some el" dpr Map.empty]
      frame_running [OF consistent_mount mount_mesh, of el dpr]
    by (simp add: consistent_def animate_fields mount_settings)
  have "frame ?s = animate (?s\<lparr>rafPending := []\<rparr>)"
    by (rule frame_running [OF consistent_frame [OF consistent_mount] mount_frame_mesh])
  with on show ?thesis
    by (simp add: animate_fields mount_frame_mesh angle_steps_simp)
qed

subsection \<open>The catalog\<close>

lemma set_firstAppearances: "set (firstAppearances xs) = set xs"
  by (induction xs) auto

lemma firstAppearances_snoc:
  "firstAppearances (xs @ [x]) =
     (if x \<in> set xs then firstAppearances xs else firstAppearances xs @ [x])"
  by (induction xs) (auto simp add: set_firstAppearances)

lemma map_of_keyed:
  "map_of (map (\<lambda>k. (k, f k)) ks) c = (if c \<in> set ks then Some (f c) else None)"
  by (induction ks) auto

lemma categorize_groupByCategory:
  "categorize (groupByCategory gs) g = groupByCategory (gs @ [g])"
proof (cases "category g \<in> set (map category gs)")
  case True
  then show ?thesis
    by (auto simp add: categorize_def groupByCategory_def firstAppearances_snoc map_of_keyed
        set_firstAppearances)
next
  case False
  then have "filter (\<lambda>x. category x = category g) gs = []"
    by (force simp add: filter_empty_conv image_iff)
  with False show ?thesis
    by (auto simp add: categorize_def groupByCategory_def firstAppearances_snoc map_of_keyed
        set_firstAppearances)
qed

text \<open>The reduction of the source computes the grouping of the specification, on every list.\<close>

lemma reduceCategories_groupByCategory: "reduceCategories gs = groupByCategory gs"
proof (induction gs rule: rev_induct)
  case Nil
  show ?case by (simp add: reduceCategories_def groupByCategory_def)
next
  case (snoc g gs)
  then show ?case
    by (simp add: reduceCategories_def categorize_groupByCategory)
qed

lemma catalog_groups:
  "groupByCategory geometries =
     [(''Primitivas'', take 6 geometries), (Platonicos, drop 6 geometries)]"
  by (simp add: groupByCategory_def geometries_def Platonicos_def)

text \<open>
  C5. In the catalog of the source the names are pairwise distinct; the derived mapping
  is the grouping by category (categories in order of first appearance, entries in
  insertion order within each), and concatenating its groups in order gives back the
  flat list.
\<close>

theorem catalog_names_unique_and_grouping_round_trips:
  "distinct (map name geometries) \<and>
   categorizedGeometries = groupByCategory geometries \<and>
   concat (map snd categorizedGeometries) = geometries"
proof -
  have names: "distinct (map name geometries)"
    by (simp add: geometries_def)
  have grouped: "categorizedGeometries = groupByCategory geometries"
    by (simp add: categorizedGeometries_def reduceCategories_groupByCategory)
  have "concat (map snd (groupByCategory geometries)) = geometries"
    by (simp add: catalog_groups)
  with names grouped show ?thesis by simp
qed

subsection \<open>Startup\<close>

text \<open>
  C2. After mounting, whatever the durable store holds and whether or not a container is
  present, the wireframe setting is on exactly when the store holds the string
  \<open>true\<close> under \<open>wireframe\<close>, the auto-rotate setting is off exactly when the store
  holds the string \<open>false\<close> under \<open>autoRotate\<close>, and with an empty store the
  selection is the first catalog entry, whose name is \<open>Sphere\<close>.
\<close>

theorem startup_state:
  "wireframe (mount el dpr store) = (store ''wireframe'' = Some ''true'') \<and>
   autoRotate (mount el dpr store) = (store ''autoRotate'' \<noteq> Some ''false'') \<and>
   selectedGeometry (mount el dpr Map.empty) = geometries ! 0 \<and>
   name (geometries ! 0) = ''Sphere''"
  by (simp add: mount_settings first_entry)

theorem startup_state_witness:
  "\<not> wireframe (mount None 1 Map.empty) \<and> autoRotate (mount None 1 Map.empty) \<and>
   name (selectedGeometry (mount None 1 Map.empty)) = ''Sphere''"
  using startup_state [of None 1 Map.empty] by simp

subsection \<open>Independence of the three state fields\<close>

text \<open>
  C7. In every state, selecting a shape changes neither the wireframe nor the auto-rotate
  setting, toggling wireframe changes neither the selection nor the auto-rotate setting,
  and toggling auto-rotate changes neither the selection nor the wireframe setting.
\<close>

theorem settings_and_selection_independent:
  "wireframe (selectShape g s) = wireframe s \<and>
   autoRotate (selectShape g s) = autoRotate s \<and>
   selectedGeometry (toggleWireframe s) = selectedGeometry s \<and>
   autoRotate (toggleWireframe s) = autoRotate s \<and>
   selectedGeometry (toggleAutoRotate s) = selectedGeometry s \<and>
   wireframe (toggleAutoRotate s) = wireframe s"
  by (simp add: selectShape_fields toggleWireframe_fields toggleAutoRotate_fields)

subsection \<open>Selection changes\<close>

lemma catalog_entries:
  "boxItem = \<lparr>name = ''Box'', category = ''Primitivas'', description = ''Caja'',
     create = BoxGeometry 1.5 1.5 1.5, color = ''#44aa88''\<rparr>"
  "torusItem = \<lparr>name = ''Torus'', category = ''Primitivas'', description = ''Toro'',
     create = TorusGeometry 1 0.4 16 100, color = ''#FFA500''\<rparr>"
  by (simp_all add: boxItem_def torusItem_def geometries_def)

lemma catalog_members: "boxItem \<in> set geometries" "torusItem \<in> set geometries"
  by (simp_all add: boxItem_def torusItem_def geometries_def)

text \<open>
  C1. In every reachable state that displays a mesh, selecting a shape \<open>g\<close> other than
  the current one keeps the mesh and its material object, gives the mesh the geometry
  that invoking \<open>g\<close>'s factory allocates, sets the material's colour to \<open>g\<close>'s and its
  wireframe flag to the current wireframe setting, and marks the material for re-upload:
  its version goes up by one. The calls made are, in this order, the disposal of the
  previous geometry, the construction of the new one and its attachment; over the whole
  history the previous geometry has then been disposed exactly once.
\<close>

theorem selection_change_swaps_geometry:
  assumes "reachable s" and "currentMeshRef s = Some m" and "g \<noteq> selectedGeometry s"
  shows "currentMeshRef (selectShape g s) =
           Some (m\<lparr>geometry := \<lparr>geo_id = nextId s, built = create g\<rparr>,
                   mesh_material := (mesh_material m)\<lparr>mat_color := color g,
                                                      mat_wireframe := wireframe s,
                                                      version := version (mesh_material m) + 1\<rparr>\<rparr>) \<and>
         fst (invokeCreate g s) = \<lparr>geo_id = nextId s, built = create g\<rparr> \<and>
         trace (selectShape g s) =
           trace s @ [GeometryDispose (geo_id (geometry m)), NewGeometry (nextId s),
                      AttachGeometry (nextId s)] \<and>
         count_list (trace (selectShape g s)) (GeometryDispose (geo_id (geometry m))) = 1"
proof -
  from assms(1) have c: "consistent s" by (rule reachable_consistent)
  with assms(2) have ref: "wireframeRef s = wireframe s"
    and live: "GeometryDispose (geo_id (geometry m)) \<notin> set (trace s)"
    by (simp_all add: consistent_def)
  from assms(2,3) ref have mesh: "currentMeshRef (selectShape g s) =
           Some (m\<lparr>geometry := \<lparr>geo_id = nextId s, built = create g\<rparr>,
                   mesh_material := (mesh_material m)\<lparr>mat_color := color g,
                                                      mat_wireframe := wireframe s,
                                                      version := version (mesh_material m) + 1\<rparr>\<rparr>)"
    by (simp add: selectShape_fields)
  from assms(2,3) have tr: "trace (selectShape g s) =
           trace s @ [GeometryDispose (geo_id (geometry m)), NewGeometry (nextId s),
                      AttachGeometry (nextId s)]"
    by (simp add: selectShape_fields)
  from live have "count_list (trace (selectShape g s)) (GeometryDispose (geo_id (geometry m))) = 1"
    unfolding tr by simp
  with mesh tr show ?thesis by (simp add: invokeCreate_explicit)
qed

theorem selection_change_swaps_geometry_witness:
  "reachable (selectShape boxItem (mount (Some host) 1 Map.empty)) \<and>
   currentMeshRef (selectShape boxItem (mount (Some host) 1 Map.empty)) =
     Some \<lparr>geometry = \<lparr>geo_id = 4, built = BoxGeometry 1.5 1.5 1.5\<rparr>,
           mesh_material = \<lparr>mat_id = 2, mat_color = ''#44aa88'', mat_wireframe = False,
                             version = 3\<rparr>,
           rotation_x = Finite (5764607523034235 / 576460752303423488),
           rotation_y = Finite (1080863910568919 / 72057594037927936)\<rparr> \<and>
   torusItem \<noteq> selectedGeometry (selectShape boxItem (mount (Some host) 1 Map.empty)) \<and>
   currentMeshRef (selectShape torusItem
       (selectShape boxItem (mount (Some host) 1 Map.empty))) =
     Some \<lparr>geometry = \<lparr>geo_id = 5, built = TorusGeometry 1 0.4 16 100\<rparr>,
           mesh_material = \<lparr>mat_id = 2, mat_color = ''#FFA500'', mat_wireframe = False,
                             version = 4\<rparr>,
           rotation_x = Finite (5764607523034235 / 576460752303423488),
           rotation_y = Finite (1080863910568919 / 72057594037927936)\<rparr> \<and>
   count_list (trace (selectShape torusItem
       (selectShape boxItem (mount (Some host) 1 Map.empty)))) (GeometryDispose 4) = 1"
proof -
  let ?s = "selectShape boxItem (mount (Some host) 1 Map.empty)"
  have r: "reachable ?s"
    by (rule r_select [OF r_mount]) (rule catalog_members)
  have m: "currentMeshRef ?s =
     Some \<lparr>geometry = \<lparr>geo_id = 4, built = BoxGeometry 1.5 1.5 1.5\<rparr>,
           mesh_material = \<lparr>mat_id = 2, mat_color = ''#44aa88'', mat_wireframe = False,
                             version = 3\<rparr>,
           rotation_x = Finite (5764607523034235 / 576460752303423488),
           rotation_y = Finite (1080863910568919 / 72057594037927936)\<rparr>"
    by (simp add: selectShape_fields mount_mesh mount_Some mount_settings catalog_entries first_entry)
  have n: "torusItem \<noteq> selectedGeometry ?s"
    by (simp add: selectShape_fields catalog_entries)
  have i: "nextId ?s = 5"
    by (simp add: selectShape_fields mount_Some mount_settings catalog_entries first_entry)
  have w: "\<not> wireframe ?s"
    by (simp add: selectShape_fields mount_settings)
  have ct: "create torusItem = TorusGeometry 1 0.4 16 100" "color torusItem = ''#FFA500''"
    by (simp_all add: catalog_entries)
  note th = selection_change_swaps_geometry [OF r m n]
  from th [THEN conjunct1] have mesh: "currentMeshRef (selectShape torusItem ?s) =
     Some \<lparr>geometry = \<lparr>geo_id = 5, built = TorusGeometry 1 0.4 16 100\<rparr>,
           mesh_material = \<lparr>mat_id = 2, mat_color = ''#FFA500'', mat_wireframe = False,
                             version = 4\<rparr>,
           rotation_x = Finite (5764607523034235 / 576460752303423488),
           rotation_y = Finite (1080863910568919 / 72057594037927936)\<rparr>"
    by (simp add: i w ct)
  from th [THEN conjunct2, THEN conjunct2, THEN conjunct2]
  have once: "count_list (trace (selectShape torusItem ?s)) (GeometryDispose 4) = 1"
    by simp
  from r m n mesh once show ?thesis by blast
qed

text \<open>
  C9. When no mesh is displayed the reaction to a selection change returns the state it
  was given: nothing is constructed, disposed or written, and selecting a shape changes
  the selection only. Mounting without a container leaves the instance in such a state.
\<close>

theorem selection_without_mesh_is_noop:
  assumes "currentMeshRef s = None"
  shows "selectionEffect s = s \<and> selectShape g s = s\<lparr>selectedGeometry := g\<rparr>"
  using assms by (simp add: selectShape_def selectionEffect_def)

theorem selection_without_mesh_is_noop_witness:
  "currentMeshRef (mount None 1 Map.empty) = None \<and>
   selectShape boxItem (mount None 1 Map.empty) =
     (mount None 1 Map.empty)\<lparr>selectedGeometry := boxItem\<rparr> \<and>
   trace (selectShape boxItem (mount None 1 Map.empty)) = [] \<and>
   nextId (selectShape boxItem (mount None 1 Map.empty)) = 0 \<and>
   currentMeshRef (selectShape boxItem (mount None 1 Map.empty)) = None"
proof -
  have n: "currentMeshRef (mount None 1 Map.empty) = None"
    by (simp add: mount_None)
  from selection_without_mesh_is_noop [OF n, of boxItem] n show ?thesis
    by (simp add: mount_None)
qed

text \<open>
  C10. Selecting a shape leaves both rotation angles of the displayed mesh as the render
  loop left them, in every state.
\<close>

theorem selection_preserves_rotation:
  "map_option rotation_x (currentMeshRef (selectShape g s)) =
     map_option rotation_x (currentMeshRef s) \<and>
   map_option rotation_y (currentMeshRef (selectShape g s)) =
     map_option rotation_y (currentMeshRef s)"
  by (cases "currentMeshRef s") (simp_all add: selectShape_fields)

theorem selection_preserves_rotation_witness:
  "map_option rotation_x (currentMeshRef (frame (mount (Some host) 1 Map.empty))) =
     Some (Finite (5764607523034235 / 288230376151711744)) \<and>
   map_option rotation_x
     (currentMeshRef (selectShape boxItem (frame (mount (Some host) 1 Map.empty)))) =
     Some (Finite (5764607523034235 / 288230376151711744)) \<and>
   map_option rotation_y
     (currentMeshRef (selectShape boxItem (frame (mount (Some host) 1 Map.empty)))) =
     Some (Finite (1080863910568919 / 36028797018963968)) \<and>
   map_option geometry
     (currentMeshRef (selectShape boxItem (frame (mount (Some host) 1 Map.empty)))) =
       Some \<lparr>geo_id = 4, built = BoxGeometry 1.5 1.5 1.5\<rparr>"
proof -
  let ?s = "mount (Some host) 1 Map.empty"
  have f: "frame ?s = animate (?s\<lparr>rafPending := []\<rparr>)"
    by (rule frame_one [of _ 1]) (simp add: mount_Some)
  have sel: "boxItem \<noteq> selectedGeometry (frame ?s)"
    unfolding f by (simp add: animate_fields mount_settings first_entry catalog_entries)
  have x: "map_option rotation_x (currentMeshRef (frame ?s)) =
      Some (Finite (5764607523034235 / 288230376151711744))"
    by (simp add: mount_frame_mesh)
  have y: "map_option rotation_y (currentMeshRef (frame ?s)) =
      Some (Finite (1080863910568919 / 36028797018963968))"
    by (simp add: mount_frame_mesh)
  have n: "nextId (frame ?s) = 4"
    unfolding f by (simp add: animate_fields mount_Some)
  have g: "map_option geometry (currentMeshRef (selectShape boxItem (frame ?s))) =
       Some \<lparr>geo_id = 4, built = BoxGeometry 1.5 1.5 1.5\<rparr>"
    using sel n by (simp add: selectShape_fields mount_frame_mesh catalog_entries)
  from selection_preserves_rotation [of boxItem "frame ?s"] x y g show ?thesis by simp
qed

subsection \<open>The render loop\<close>

text \<open>
  C3. In every reachable state that displays a mesh, a frame tick with auto-rotate on
  replaces each rotation angle by the double-precision sum of the angle and the double
  nearest to 0.01, respectively 0.015, and with auto-rotate off it leaves the mesh as it
  is; in both cases it requests the next frame, which is then the one pending, and draws.
\<close>

theorem frame_tick_rotates_and_redraws:
  assumes "reachable s" and "currentMeshRef s = Some m"
  shows "currentMeshRef (frame s) =
           Some (if autoRotate s
                 then m\<lparr>rotation_x := js_add (rotation_x m) (numericLiteral 0.01),
                         rotation_y := js_add (rotation_y m) (numericLiteral 0.015)\<rparr>
                 else m) \<and>
         trace (frame s) = trace s @ [RequestAnimationFrame (rafNext s), Render] \<and>
         rafPending (frame s) = [rafNext s]"
proof -
  from assms(1) have c: "consistent s" by (rule reachable_consistent)
  then have ref: "autoRotateRef s = autoRotate s"
    by (simp add: consistent_def)
  have "frame s = animate (s\<lparr>rafPending := []\<rparr>)"
    using c assms(2) by (rule frame_running)
  with assms(2) ref show ?thesis
    by (simp add: animate_fields)
qed

theorem frame_tick_rotates_and_redraws_witness:
  "reachable (mount (Some host) 1 Map.empty) \<and>
   map_option rotation_x (currentMeshRef (mount (Some host) 1 Map.empty)) =
     Some (Finite (5764607523034235 / 576460752303423488)) \<and>
   map_option rotation_x (currentMeshRef (frame (mount (Some host) 1 Map.empty))) =
     Some (Finite (5764607523034235 / 288230376151711744)) \<and>
   map_option rotation_y (currentMeshRef (frame (mount (Some host) 1 Map.empty))) =
     Some (Finite (1080863910568919 / 36028797018963968)) \<and>
   map_option rotation_x
       (currentMeshRef (frame (toggleAutoRotate (mount (Some host) 1 Map.empty)))) =
     Some (Finite (5764607523034235 / 576460752303423488)) \<and>
   map_option rotation_y
       (currentMeshRef (frame (toggleAutoRotate (mount (Some host) 1 Map.empty)))) =
     Some (Finite (1080863910568919 / 72057594037927936)) \<and>
   trace (frame (toggleAutoRotate (mount (Some host) 1 Map.empty))) =
     trace (mount (Some host) 1 Map.empty) @ [RequestAnimationFrame 2, Render]"
proof -
  let ?s = "mount (Some host) 1 Map.empty"
  let ?m = "\<lparr>geometry = \<lparr>geo_id = 3, built = SphereGeometry 1 32 16\<rparr>,
      mesh_material = \<lparr>mat_id = 2, mat_color = ''#FF6B6B'', mat_wireframe = False, version = 2\<rparr>,
      rotation_x = Finite (5764607523034235 / 576460752303423488),
      rotation_y = Finite (1080863910568919 / 72057594037927936)\<rparr>"
  have r: "reachable ?s" by (rule r_mount)
  have m: "currentMeshRef ?s = Some ?m"
    by (rule mount_mesh)
  have r': "reachable (toggleAutoRotate ?s)" by (rule r_autoRotate [OF r_mount])
  have m': "currentMeshRef (toggleAutoRotate ?s) = Some ?m"
    by (simp add: toggleAutoRotate_fields mount_mesh)
  have on: "autoRotate ?s" by (simp add: mount_settings)
  have off: "\<not> autoRotate (toggleAutoRotate ?s)"
    by (simp add: toggleAutoRotate_fields mount_settings)
  have x0: "map_option rotation_x (currentMeshRef ?s) =
      Some (Finite (5764607523034235 / 576460752303423488))"
    by (simp add: mount_mesh)
  from frame_tick_rotates_and_redraws [OF r m, THEN conjunct1] on
  have t: "currentMeshRef (frame ?s) = Some
     (?m\<lparr>rotation_x := Finite (5764607523034235 / 288230376151711744),
          rotation_y := Finite (1080863910568919 / 36028797018963968)\<rparr>)"
    by (simp add: angle_steps_simp)
  from frame_tick_rotates_and_redraws [OF r' m', THEN conjunct1] off
  have t': "currentMeshRef (frame (toggleAutoRotate ?s)) = Some ?m"
    by simp
  from frame_tick_rotates_and_redraws [OF r' m', THEN conjunct2, THEN conjunct1]
  have tr: "trace (frame (toggleAutoRotate ?s)) = trace ?s @ [RequestAnimationFrame 2, Render]"
    by (simp add: toggleAutoRotate_fields mount_Some)
  from x0 t have a: "map_option rotation_x (currentMeshRef ?s) =
      Some (Finite (5764607523034235 / 576460752303423488)) \<and>
    map_option rotation_x (currentMeshRef (frame ?s)) =
      Some (Finite (5764607523034235 / 288230376151711744)) \<and>
    map_option rotation_y (currentMeshRef (frame ?s)) =
      Some (Finite (1080863910568919 / 36028797018963968))"
    by simp
  from t' have b: "map_option rotation_x (currentMeshRef (frame (toggleAutoRotate ?s))) =
      Some (Finite (5764607523034235 / 576460752303423488)) \<and>
    map_option rotation_y (currentMeshRef (frame (toggleAutoRotate ?s))) =
      Some (Finite (1080863910568919 / 72057594037927936))"
    by simp
  from r a b tr show ?thesis by blast
qed

text \<open>
  C3 as the specification words it, with increments of exactly 0.01 and 0.015, fails:
  after a mount with an empty store and one frame the first angle is the double 0.02;
  the next frame, with auto-rotate on, makes it the double 0.03, and the difference of
  the two is neither the rational 1/100 nor the double nearest to 0.01. The second angle
  goes from the double 0.03 to the double 0.045, whose difference is not 3/200.
\<close>

theorem frame_tick_exact_increment_counterexample:
  "autoRotate (frame (mount (Some host) 1 Map.empty)) \<and>
   map_option rotation_x (currentMeshRef (frame (mount (Some host) 1 Map.empty))) =
     Some (Finite (5764607523034235 / 288230376151711744)) \<and>
   map_option rotation_x (currentMeshRef (frame (frame (mount (Some host) 1 Map.empty)))) =
     Some (Finite (1080863910568919 / 36028797018963968)) \<and>
   (1080863910568919 / 36028797018963968 :: rat) - 5764607523034235 / 288230376151711744 \<noteq> 0.01 \<and>
   numericLiteral 0.01 \<noteq> Finite (1080863910568919 / 36028797018963968 - 5764607523034235 / 288230376151711744) \<and>
   map_option rotation_y (currentMeshRef (frame (mount (Some host) 1 Map.empty))) =
     Some (Finite (1080863910568919 / 36028797018963968)) \<and>
   map_option rotation_y (currentMeshRef (frame (frame (mount (Some host) 1 Map.empty)))) =
     Some (Finite (3242591731706757 / 72057594037927936)) \<and>
   (3242591731706757 / 72057594037927936 :: rat) - 1080863910568919 / 36028797018963968 \<noteq> 0.015"
proof -
  let ?s = "mount (Some host) 1 Map.empty"
  have "frame ?s = animate (?s\<lparr>rafPending := []\<rparr>)"
    by (rule frame_running [OF consistent_mount mount_mesh])
  then have on: "autoRotate (frame ?s)"
    by (simp add: animate_fields mount_settings)
  have x1: "map_option rotation_x (currentMeshRef (frame ?s)) =
      Some (Finite (5764607523034235 / 288230376151711744))"
    and y1: "map_option rotation_y (currentMeshRef (frame ?s)) =
      Some (Finite (1080863910568919 / 36028797018963968))"
    by (simp_all add: mount_frame_mesh)
  have x2: "map_option rotation_x (currentMeshRef (frame (frame ?s))) =
      Some (Finite (1080863910568919 / 36028797018963968))"
    and y2: "map_option rotation_y (currentMeshRef (frame (frame ?s))) =
      Some (Finite (3242591731706757 / 72057594037927936))"
    by (simp_all add: mount_frame_frame_mesh)
  have dx: "(1080863910568919 / 36028797018963968 :: rat) - 5764607523034235 / 288230376151711744 \<noteq> 0.01"
    by simp
  have dl: "numericLiteral 0.01 \<noteq> Finite (1080863910568919 / 36028797018963968 - 5764607523034235 / 288230376151711744)"
    by (simp add: literal_values_simp)
  have dy: "(3242591731706757 / 72057594037927936 :: rat) - 1080863910568919 / 36028797018963968 \<noteq> 0.015"
    by simp
  from on x1 x2 dx dl y1 y2 dy show ?thesis by blast
qed

subsection \<open>Wireframe\<close>

text \<open>
  C8. In every reachable state, toggling wireframe twice gives back the wireframe setting
  and the wireframe flag of the displayed mesh's material.
\<close>

theorem toggleWireframe_twice_restores:
  assumes "reachable s"
  shows "wireframe (toggleWireframe (toggleWireframe s)) = wireframe s \<and>
         map_option (\<lambda>m. mat_wireframe (mesh_material m))
             (currentMeshRef (toggleWireframe (toggleWireframe s))) =
           map_option (\<lambda>m. mat_wireframe (mesh_material m)) (currentMeshRef s)"
proof -
  from assms have c: "consistent s" by (rule reachable_consistent)
  show ?thesis
  proof (cases "currentMeshRef s")
    case None
    then show ?thesis by (simp add: toggleWireframe_fields)
  next
    case (Some m)
    with c have "mat_wireframe (mesh_material m) = wireframe s"
      by (simp add: consistent_def)
    with Some show ?thesis by (simp add: toggleWireframe_fields)
  qed
qed

theorem toggleWireframe_twice_restores_witness:
  "reachable (mount (Some host) 1 Map.empty) \<and>
   map_option (\<lambda>m. mat_wireframe (mesh_material m))
     (currentMeshRef (mount (Some host) 1 Map.empty)) = Some False \<and>
   map_option (\<lambda>m. mat_wireframe (mesh_material m))
     (currentMeshRef (toggleWireframe (mount (Some host) 1 Map.empty))) = Some True \<and>
   map_option (\<lambda>m. mat_wireframe (mesh_material m))
     (currentMeshRef (toggleWireframe (toggleWireframe (mount (Some host) 1 Map.empty)))) = Some False \<and>
   \<not> wireframe (toggleWireframe (toggleWireframe (mount (Some host) 1 Map.empty)))"
proof -
  let ?s = "mount (Some host) 1 Map.empty"
  have r: "reachable ?s" by (rule r_mount)
  have a: "map_option (\<lambda>m. mat_wireframe (mesh_material m)) (currentMeshRef ?s) = Some False"
    by (simp add: mount_Some)
  have b: "map_option (\<lambda>m. mat_wireframe (mesh_material m))
     (currentMeshRef (toggleWireframe ?s)) = Some True"
    by (simp add: toggleWireframe_fields mount_Some mount_settings)
  have w: "\<not> wireframe ?s" by (simp add: mount_settings)
  from toggleWireframe_twice_restores [OF r] r a b w show ?thesis by simp
qed

subsection \<open>Resize\<close>




subsection \<open>Teardown\<close>

text \<open>
  In every reachable state that displays a mesh, unmounting removes the listener, cancels
  the pending frame, disposes the material of the displayed mesh, clears the scene and
  disposes the renderer; the geometry it disposes is the one the setup effect built,
  which differs from the displayed one and was disposed before, and the displayed
  geometry is never disposed.
\<close>

lemma unmount_running:
  assumes "reachable s" and "currentMeshRef s = Some m"
  shows "\<exists>cl h. cleanupClosure s = Some cl \<and> rafPending s = [h] \<and>
           trace (unmount s) =
             trace s @ [RemoveResizeListener, CancelAnimationFrame h,
                        GeometryDispose (geo_id (cl_geometry cl)),
                        MaterialDispose (mat_id (mesh_material m)), SceneClear,
                        RendererDispose (cl_renderer cl)] \<and>
           geo_id (cl_geometry cl) \<noteq> geo_id (geometry m) \<and>
           GeometryDispose (geo_id (cl_geometry cl)) \<in> set (trace s) \<and>
           GeometryDispose (geo_id (geometry m)) \<notin> set (trace (unmount s)) \<and>
           rafPending (unmount s) = [] \<and> \<not> resizeListener (unmount s) \<and>
           map_option children (sceneRef (unmount s)) = map_option (\<lambda>x. []) (sceneRef s)"
proof -
  from assms(1) have c: "consistent s" by (rule reachable_consistent)
  with assms(2) obtain cl h where cl: "cleanupClosure s = Some cl"
    and h: "rafPending s = [h]" "animRef s = Some h" "0 < h"
    and mat: "cl_material cl = mat_id (mesh_material m)"
    and stale: "geo_id (cl_geometry cl) < geo_id (geometry m)"
    and gone: "GeometryDispose (geo_id (cl_geometry cl)) \<in> set (trace s)"
    and live: "GeometryDispose (geo_id (geometry m)) \<notin> set (trace s)"
    by (auto simp add: consistent_def split: list.splits option.splits)
  have u: "unmount s = cleanup cl s"
    using cl by (simp add: unmount_def)
  from h mat stale gone live cl show ?thesis
    unfolding u by (cases "sceneRef s") (auto simp add: cleanup_fields)
qed

text \<open>
  C4. Mount with a container, select Box, unmount: the displayed geometry is number 4;
  the cleanup disposes geometry number 1, for the second time, and geometry number 4 is
  not disposed at all.
\<close>

theorem unmount_disposes_stale_geometry:
  "map_option geometry (currentMeshRef (selectShape boxItem (mount (Some host) 1 Map.empty))) =
     Some \<lparr>geo_id = 4, built = BoxGeometry 1.5 1.5 1.5\<rparr> \<and>
   trace (unmount (selectShape boxItem (mount (Some host) 1 Map.empty))) =
     [NewGeometry 1, RequestAnimationFrame 1, Render, AddResizeListener,
      GeometryDispose 1, NewGeometry 3, AttachGeometry 3,
      GeometryDispose 3, NewGeometry 4, AttachGeometry 4,
      RemoveResizeListener, CancelAnimationFrame 1, GeometryDispose 1, MaterialDispose 2,
      SceneClear, RendererDispose 0] \<and>
   count_list (trace (unmount (selectShape boxItem (mount (Some host) 1 Map.empty))))
     (GeometryDispose 4) = 0 \<and>
   count_list (trace (unmount (selectShape boxItem (mount (Some host) 1 Map.empty))))
     (GeometryDispose 1) = 2"
proof -
  let ?s = "selectShape boxItem (mount (Some host) 1 Map.empty)"
  have sel: "boxItem \<noteq> selectedGeometry (mount (Some host) 1 Map.empty)"
    by (simp add: mount_settings first_entry catalog_entries)
  have g: "map_option geometry (currentMeshRef ?s) =
      Some \<lparr>geo_id = 4, built = BoxGeometry 1.5 1.5 1.5\<rparr>"
    using sel by (simp add: selectShape_fields mount_Some catalog_entries)
  have cl: "cleanupClosure ?s =
      Some \<lparr>cl_geometry = \<lparr>geo_id = 1, built = SphereGeometry 1 32 16\<rparr>,
            cl_material = 2, cl_renderer = 0\<rparr>"
    by (simp add: selectShape_fields mount_Some)
  have a: "animRef ?s = Some 1"
    by (simp add: selectShape_fields mount_Some)
  have t: "trace ?s = [NewGeometry 1, RequestAnimationFrame 1, Render, AddResizeListener,
      GeometryDispose 1, NewGeometry 3, AttachGeometry 3,
      GeometryDispose 3, NewGeometry 4, AttachGeometry 4]"
    using sel by (simp add: selectShape_fields mount_Some)
  have u: "trace (unmount ?s) =
     [NewGeometry 1, RequestAnimationFrame 1, Render, AddResizeListener,
      GeometryDispose 1, NewGeometry 3, AttachGeometry 3,
      GeometryDispose 3, NewGeometry 4, AttachGeometry 4,
      RemoveResizeListener, CancelAnimationFrame 1, GeometryDispose 1, MaterialDispose 2,
      SceneClear, RendererDispose 0]"
    by (simp add: unmount_def cl cleanup_fields a t)
  have c4: "count_list (trace (unmount ?s)) (GeometryDispose 4) = 0"
    unfolding u by simp
  have c1: "count_list (trace (unmount ?s)) (GeometryDispose 1) = 2"
    unfolding u by simp
  from g u c4 c1 show ?thesis by blast
qed

end
